theory Spec2Isabelle
  imports Main "HOL-Library.Char_ord" "HOL-Library.List_Lexorder" "HOL-Library.Sublist"
begin

section \<open>Python strings and POSIX paths\<close>

text \<open>
  A Python \<open>str\<close> is modelled as a \<open>string\<close>, one \<open>char\<close> per code point (so the
  model covers code points below 256); \<open>bytes.decode()\<close> is taken as done by the
  process that produced the text. Python compares strings lexicographically by code
  point, a proper prefix being smaller; this is the order of \<open>List_Lexorder\<close> over
  \<open>Char_ord\<close>.
\<close>

definition startswith :: "string \<Rightarrow> string \<Rightarrow> bool" where
  "startswith s p = (take (length p) s = p)"

definition endswith :: "string \<Rightarrow> string \<Rightarrow> bool" where
  "endswith s p = (length p \<le> length s \<and> drop (length s - length p) s = p)"

text \<open>The characters \<open>str.strip()\<close> removes: those with \<open>str.isspace()\<close>.\<close>

definition is_space :: "char \<Rightarrow> bool" where
  "is_space c = (c \<in> set [CHR 0x09, CHR 0x0A, CHR 0x0B, CHR 0x0C, CHR 0x0D,
     CHR 0x1C, CHR 0x1D, CHR 0x1E, CHR 0x1F, CHR 0x20, CHR 0x85, CHR 0xA0])"

definition strip :: "string \<Rightarrow> string" where
  "strip s = rev (dropWhile is_space (rev (dropWhile is_space s)))"

text \<open>The line boundaries of \<open>str.splitlines()\<close>; \<open>\r\n\<close> counts as one.\<close>

definition is_linebreak :: "char \<Rightarrow> bool" where
  "is_linebreak c = (c \<in> set [CHR 0x0A, CHR 0x0B, CHR 0x0C, CHR 0x0D,
     CHR 0x1C, CHR 0x1D, CHR 0x1E, CHR 0x85])"

fun splitlines_from :: "string \<Rightarrow> string \<Rightarrow> string list" where
  "splitlines_from cur [] = (if cur = [] then [] else [rev cur])"
| "splitlines_from cur [c] =
     (if is_linebreak c then [rev cur] else [rev (c # cur)])"
| "splitlines_from cur (c # d # cs) =
     (if c = CHR 0x0D \<and> d = CHR 0x0A then rev cur # splitlines_from [] cs
      else if is_linebreak c then rev cur # splitlines_from [] (d # cs)
      else splitlines_from (c # cur) (d # cs))"

definition splitlines :: "string \<Rightarrow> string list" where
  "splitlines s = splitlines_from [] s"

text \<open>\<open>s.split(sep)\<close> for a separator of one character; the result is never empty.\<close>

fun split_on :: "char \<Rightarrow> string \<Rightarrow> string list" where
  "split_on sep [] = [[]]"
| "split_on sep (c # cs) =
     (if c = sep then [] # split_on sep cs
      else (case split_on sep cs of
              [] \<Rightarrow> [[c]]
            | f # fs \<Rightarrow> (c # f) # fs))"

text \<open>\<open>posixpath.join(a, *p)\<close>: an absolute component restarts the path.\<close>

definition join2 :: "string \<Rightarrow> string \<Rightarrow> string" where
  "join2 path b =
     (if startswith b ''/'' then b
      else if path = [] \<or> endswith path ''/'' then path @ b
      else path @ ''/'' @ b)"

definition os_path_join :: "string \<Rightarrow> string list \<Rightarrow> string" where
  "os_path_join a p = foldl join2 a p"


text \<open>
  \<open>is_under d p\<close>: the path \<open>p\<close> names the directory \<open>d\<close> or something inside it. Paths
  are compared as the strings the program builds; they are not normalised.
\<close>

definition as_dir :: "string \<Rightarrow> string" where
  "as_dir d = (if endswith d ''/'' then d else d @ ''/'')"

definition is_under :: "string \<Rightarrow> string \<Rightarrow> bool" where
  "is_under d p = (d \<noteq> [] \<and> (p = d \<or> startswith p (as_dir d)))"

text \<open>\<open>posixpath.dirname\<close>.\<close>

definition dirname :: "string \<Rightarrow> string" where
  "dirname p =
     (let head = rev (dropWhile (\<lambda>c. c \<noteq> CHR ''/'') (rev p))
      in if head \<noteq> [] \<and> \<not> list_all (\<lambda>c. c = CHR ''/'') head
         then rev (dropWhile (\<lambda>c. c = CHR ''/'') (rev head)) else head)"

section \<open>The world: file system, completed effects, console\<close>

text \<open>
  A process invocation as \<open>subprocess\<close> receives it: the argument vector, the working
  directory (\<open>None\<close>: inherited) and the environment (\<open>None\<close>: inherited).
\<close>

datatype cmd = Cmd (argv: "string list") (cwd: "string option") (env: "(string \<times> string) list option")

text \<open>The effects a run completes, in order. A step that raises is not recorded.\<close>

datatype event =
    CheckCall cmd
  | CheckOutput cmd
  | Makedirs string
  | Rmtree string
  | RmtreeIgnoreErrors string
  | Copytree string string
  | Copyfile string string
  | Touch string

datatype error =
    CalledProcessError cmd
  | StopIteration
  | FileNotFoundError string
  | FileExistsError string
  | IsADirectoryError string
  | NotADirectoryError string
  | SameFileError string

record fsys =
  dirs :: "string \<Rightarrow> bool"
  files :: "string \<Rightarrow> string option"

record world =
  fs :: fsys
  log :: "event list"
  stdout :: "string list"

text \<open>
  The external programs (git, make, pip, the Python interpreter running setup.py and
  mavgen) and the order in which the operating system lists a directory are not part of
  the repository: they are parameters. Each sees the effects completed so far, the
  invocation and the file system. \<open>call_result\<close> gives the exit status (\<open>True\<close>: zero) and the
  file system the process leaves; \<open>output_text\<close> gives the text a query prints, \<open>None\<close> for a
  non-zero exit; \<open>dir_listing\<close> gives the entry names of a directory.
\<close>

record tools =
  call_result :: "event list \<Rightarrow> cmd \<Rightarrow> fsys \<Rightarrow> bool \<times> fsys"
  output_text :: "event list \<Rightarrow> cmd \<Rightarrow> fsys \<Rightarrow> string option"
  dir_listing :: "event list \<Rightarrow> string \<Rightarrow> fsys \<Rightarrow> string list"

text \<open>
  What the script reads from its surroundings at import time: its own directory
  (\<open>os.path.abspath\<close> of it), the stripped content of \<open>.px4-version\<close>, the interpreter
  path and the environment.
\<close>

record config =
  THIS_DIR :: string
  PX4_VERSION :: string
  sys_executable :: string
  os_environ :: "(string \<times> string) list"

text \<open>A step returns the new world, or the exception together with the world it left.\<close>

type_synonym step = "world \<Rightarrow> (error \<times> world) + world"

fun run_steps :: "step list \<Rightarrow> step" where
  "run_steps [] w = Inr w"
| "run_steps (s # ss) w = (case s w of Inl e \<Rightarrow> Inl e | Inr w' \<Rightarrow> run_steps ss w')"

fun for_each :: "('a \<Rightarrow> step) \<Rightarrow> 'a list \<Rightarrow> step" where
  "for_each body [] w = Inr w"
| "for_each body (x # xs) w =
     (case body x w of Inl e \<Rightarrow> Inl e | Inr w' \<Rightarrow> for_each body xs w')"

definition final_world :: "(error \<times> world) + world \<Rightarrow> world" where
  "final_world r = (case r of Inl (e, w) \<Rightarrow> w | Inr w \<Rightarrow> w)"

definition done_by :: "event list \<Rightarrow> world \<Rightarrow> world" where
  "done_by evs w = w\<lparr>log := log w @ evs\<rparr>"

subsection \<open>File-system operations of the standard library\<close>

definition isdir :: "world \<Rightarrow> string \<Rightarrow> bool" where
  "isdir w p = dirs (fs w) p"

definition isfile :: "world \<Rightarrow> string \<Rightarrow> bool" where
  "isfile w p = (files (fs w) p \<noteq> None)"

definition parent_exists :: "fsys \<Rightarrow> string \<Rightarrow> bool" where
  "parent_exists f p = (let d = dirname p in list_all (\<lambda>c. c = CHR ''/'') d \<or> dirs f d)"

text \<open>\<open>open(filename, "w")\<close> and close: the file exists afterwards, empty.\<close>

definition open_w :: "string \<Rightarrow> step" where
  "open_w filename w =
     (if dirs (fs w) filename then Inl (IsADirectoryError filename, w)
      else if \<not> parent_exists (fs w) filename then Inl (FileNotFoundError filename, w)
      else Inr (done_by [Touch filename]
             (w\<lparr>fs := (fs w)\<lparr>files := (files (fs w))(filename \<mapsto> [])\<rparr>\<rparr>)))"


definition remove_tree :: "string \<Rightarrow> fsys \<Rightarrow> fsys" where
  "remove_tree d f =
     f\<lparr>dirs := (\<lambda>p. dirs f p \<and> \<not> is_under d p),
       files := (\<lambda>p. if is_under d p then None else files f p)\<rparr>"

text \<open>\<open>shutil.rmtree(d)\<close>.\<close>

definition rmtree :: "string \<Rightarrow> step" where
  "rmtree d w =
     (if files (fs w) d \<noteq> None then Inl (NotADirectoryError d, w)
      else if \<not> dirs (fs w) d then Inl (FileNotFoundError d, w)
      else Inr (done_by [Rmtree d] (w\<lparr>fs := remove_tree d (fs w)\<rparr>)))"

text \<open>\<open>shutil.rmtree(d, ignore_errors=True)\<close>: what is not a directory is left alone.\<close>

definition rmtree_ignore_errors :: "string \<Rightarrow> step" where
  "rmtree_ignore_errors d w =
     Inr (done_by [RmtreeIgnoreErrors d]
       (if dirs (fs w) d \<and> files (fs w) d = None
        then w\<lparr>fs := remove_tree d (fs w)\<rparr> else w))"

text \<open>\<open>shutil.copyfile(src, dst)\<close>.\<close>

definition copyfile :: "string \<Rightarrow> string \<Rightarrow> step" where
  "copyfile src dst w =
     (if src = dst then Inl (SameFileError src, w)
      else if dirs (fs w) src then Inl (IsADirectoryError src, w)
      else (case files (fs w) src of
              None \<Rightarrow> Inl (FileNotFoundError src, w)
            | Some content \<Rightarrow>
                if dirs (fs w) dst then Inl (IsADirectoryError dst, w)
                else if \<not> parent_exists (fs w) dst then Inl (FileNotFoundError dst, w)
                else Inr (done_by [Copyfile src dst]
                       (w\<lparr>fs := (fs w)\<lparr>files := (files (fs w))(dst \<mapsto> content)\<rparr>\<rparr>))))"

text \<open>
  \<open>shutil.copytree(src, dst)\<close>: \<open>dst\<close> must not exist; afterwards every path under \<open>dst\<close>
  is what the corresponding path under \<open>src\<close> was, and the directories above \<open>dst\<close> exist.
\<close>

definition relocate :: "string \<Rightarrow> string \<Rightarrow> string \<Rightarrow> string" where
  "relocate dst src p =
     (if p = dst then src else as_dir src @ drop (length (as_dir dst)) p)"

definition copytree :: "string \<Rightarrow> string \<Rightarrow> step" where
  "copytree src dst w =
     (if files (fs w) src \<noteq> None then Inl (NotADirectoryError src, w)
      else if \<not> dirs (fs w) src then Inl (FileNotFoundError src, w)
      else if dirs (fs w) dst \<or> files (fs w) dst \<noteq> None then Inl (FileExistsError dst, w)
      else Inr (done_by [Copytree src dst]
             (w\<lparr>fs := (fs w)\<lparr>
                dirs := (\<lambda>p. if is_under dst p then dirs (fs w) (relocate dst src p)
                             else dirs (fs w) p \<or> is_under p dst),
                files := (\<lambda>p. if is_under dst p then files (fs w) (relocate dst src p)
                              else files (fs w) p)\<rparr>\<rparr>)))"

text \<open>\<open>os.listdir(d)\<close>.\<close>

definition listdir :: "tools \<Rightarrow> string \<Rightarrow> world \<Rightarrow> (error \<times> world) + string list" where
  "listdir tools d w =
     (if files (fs w) d \<noteq> None then Inl (NotADirectoryError d, w)
      else if \<not> dirs (fs w) d then Inl (FileNotFoundError d, w)
      else Inr (dir_listing tools (log w) d (fs w)))"

subsection \<open>Processes and the console\<close>

text \<open>\<open>subprocess.check_call\<close>: a non-zero exit raises, whatever the process did before.\<close>

definition check_call :: "tools \<Rightarrow> cmd \<Rightarrow> step" where
  "check_call tools c w =
     (case call_result tools (log w) c (fs w) of
        (ok, f) \<Rightarrow>
          if ok then Inr (done_by [CheckCall c] (w\<lparr>fs := f\<rparr>))
          else Inl (CalledProcessError c, w\<lparr>fs := f\<rparr>))"

text \<open>\<open>subprocess.check_output(...).decode()\<close>, for a query that leaves the files alone.\<close>

definition check_output :: "tools \<Rightarrow> cmd \<Rightarrow> world \<Rightarrow> (error \<times> world) + (string \<times> world)" where
  "check_output tools c w =
     (case output_text tools (log w) c (fs w) of
        None \<Rightarrow> Inl (CalledProcessError c, w)
      | Some text \<Rightarrow> Inr (text, done_by [CheckOutput c] w))"

definition print :: "string \<Rightarrow> step" where
  "print msg w = Inr (w\<lparr>stdout := stdout w @ [msg]\<rparr>)"


section \<open>build.py\<close>

text \<open>
  The functions follow the source in order. Two parts of the file are left out:
  \<open>clean_directory\<close> (lines 48--59), whose only calls are commented out, and the
  command-line parsing under \<open>__main__\<close> (lines 359--394), which hands its five values
  to \<open>main\<close>.
\<close>

subsection \<open>Module constants (lines 8--30)\<close>

definition DIST_DIR :: "config \<Rightarrow> string" where
  "DIST_DIR cfg = os_path_join (THIS_DIR cfg) [''dist'']"

definition BUILD_DIR :: "config \<Rightarrow> string" where
  "BUILD_DIR cfg = os_path_join (THIS_DIR cfg) [''build'', PX4_VERSION cfg]"

definition PX4_DIR :: "config \<Rightarrow> string" where
  "PX4_DIR cfg = os_path_join (BUILD_DIR cfg) [''PX4-Autopilot'']"

definition PYMAVLINK_DIR :: "config \<Rightarrow> string" where
  "PYMAVLINK_DIR cfg =
     (if PX4_VERSION cfg < ''v1.13.0''
      then os_path_join (BUILD_DIR cfg) [''pymavlink'']
      else os_path_join (PX4_DIR cfg)
             [''src'', ''modules'', ''mavlink'', ''mavlink'', ''pymavlink''])"

subsection \<open>Helpers (lines 33--45)\<close>

definition print2 :: "string \<Rightarrow> step" where
  "print2 msg = print (''--- '' @ msg)"

definition touch_file :: "string \<Rightarrow> step" where
  "touch_file filename = open_w filename"

subsection \<open>clone_pymavlink (lines 62--79)\<close>

definition git_pull_cmd :: "config \<Rightarrow> cmd" where
  "git_pull_cmd cfg = Cmd [''git'', ''pull''] (Some (PYMAVLINK_DIR cfg)) None"

definition git_clone_pymavlink_cmd :: "config \<Rightarrow> cmd" where
  "git_clone_pymavlink_cmd cfg =
     Cmd [''git'', ''clone'', ''https://github.com/ardupilot/pymavlink'', PYMAVLINK_DIR cfg]
       None None"

definition clone_pymavlink :: "tools \<Rightarrow> config \<Rightarrow> step" where
  "clone_pymavlink tools cfg w =
     (if PX4_VERSION cfg \<ge> ''v1.13.0'' then Inr w
      else if isdir w (PYMAVLINK_DIR cfg) then
        run_steps [print2 ''Updating pymavlink'', check_call tools (git_pull_cmd cfg)] w
      else
        run_steps [print2 ''Cloning pymavlink'',
                   check_call tools (git_clone_pymavlink_cmd cfg)] w)"

subsection \<open>clone_px4 (lines 82--140)\<close>

definition px4_check_patch_file :: "config \<Rightarrow> string" where
  "px4_check_patch_file cfg = os_path_join (BUILD_DIR cfg) [''.px4-patched'']"

definition git_remote_show_cmd :: "config \<Rightarrow> cmd" where
  "git_remote_show_cmd cfg =
     Cmd [''git'', ''remote'', ''show'', ''origin'', ''-n''] (Some (PX4_DIR cfg)) None"

text \<open>
  Lines 92--100: \<open>next(l.split("/")[-1] for l in text.splitlines()
  if l.strip().startswith("refs"))\<close>; \<open>None\<close> stands for the \<open>StopIteration\<close> of \<open>next\<close>
  on a generator that yields nothing.
\<close>

definition local_version_of :: "string \<Rightarrow> string option" where
  "local_version_of text =
     (case filter (\<lambda>l. startswith (strip l) ''refs'') (splitlines text) of
        [] \<Rightarrow> None
      | l # _ \<Rightarrow> Some (last (split_on (CHR ''/'') l)))"

definition git_clone_px4_cmd :: "config \<Rightarrow> cmd" where
  "git_clone_px4_cmd cfg =
     Cmd [''git'', ''clone'', ''https://github.com/PX4/PX4-Autopilot'', PX4_DIR cfg,
          ''--depth'', ''1'', ''--branch'', PX4_VERSION cfg, ''--recurse-submodules'']
       None None"

definition git_apply_px4_cmd :: "config \<Rightarrow> cmd" where
  "git_apply_px4_cmd cfg =
     Cmd [''git'', ''apply'', ''--ignore-space-change'', ''--ignore-whitespace'',
          os_path_join (THIS_DIR cfg)
            [''patches'', ''hil_gps_heading_'' @ PX4_VERSION cfg @ ''.patch'']]
       (Some (PX4_DIR cfg)) None"

text \<open>Lines 124--140, the end of \<open>clone_px4\<close>: the patch, guarded by its marker.\<close>

definition px4_patch_once :: "tools \<Rightarrow> config \<Rightarrow> step" where
  "px4_patch_once tools cfg w =
     (if \<not> isfile w (px4_check_patch_file cfg) then
        run_steps [print2 ''Applying PX4 patch'',
                   check_call tools (git_apply_px4_cmd cfg),
                   touch_file (px4_check_patch_file cfg)] w
      else Inr w)"

text \<open>Lines 107--122, the \<open>else\<close> branch: a fresh clone.\<close>

definition px4_clone_fresh :: "tools \<Rightarrow> config \<Rightarrow> step" where
  "px4_clone_fresh tools cfg =
     run_steps [print2 ''Cloning PX4'', check_call tools (git_clone_px4_cmd cfg)]"

text \<open>Lines 103--104: the message and the removal of the whole build directory.\<close>

definition px4_nuke :: "config \<Rightarrow> string \<Rightarrow> step" where
  "px4_nuke cfg local_version =
     run_steps [print (''Existing PX4 checkout is '' @ local_version @ '', re-cloning''),
                rmtree (BUILD_DIR cfg)]"


text \<open>
  \<open>clone_px4\<close> calls itself after removing the build directory. The call returns
  because the checkout lies in that directory: the second activation finds no checkout
  and takes the \<open>else\<close> branch.
\<close>

lemma under_join2: "d \<noteq> [] \<Longrightarrow> \<not> startswith b ''/'' \<Longrightarrow> is_under d (join2 d b)"
  by (auto simp: is_under_def join2_def as_dir_def startswith_def)

lemma BUILD_DIR_nonempty: "BUILD_DIR cfg \<noteq> []"
  by (auto simp: BUILD_DIR_def os_path_join_def join2_def startswith_def)

lemma PX4_DIR_under_BUILD_DIR: "is_under (BUILD_DIR cfg) (PX4_DIR cfg)"
  unfolding PX4_DIR_def os_path_join_def
  by (simp add: under_join2 BUILD_DIR_nonempty startswith_def)

lemma px4_nuke_removes_checkout:
  "px4_nuke cfg v w = Inr w' \<Longrightarrow> \<not> isdir w' (PX4_DIR cfg)"
  by (auto simp: px4_nuke_def print_def rmtree_def isdir_def done_by_def remove_tree_def
      PX4_DIR_under_BUILD_DIR split: if_splits)

function clone_px4 :: "tools \<Rightarrow> config \<Rightarrow> step" where
  "clone_px4 tools cfg w =
     (case
        (if isdir w (PX4_DIR cfg) then
           (case check_output tools (git_remote_show_cmd cfg) w of
              Inl e \<Rightarrow> Inl e
            | Inr (text, w1) \<Rightarrow>
                (case local_version_of text of
                   None \<Rightarrow> Inl (StopIteration, w1)
                 | Some local_version \<Rightarrow>
                     if local_version \<noteq> PX4_VERSION cfg then
                       (case px4_nuke cfg local_version w1 of
                          Inl e \<Rightarrow> Inl e
                        | Inr w2 \<Rightarrow> clone_px4 tools cfg w2)
                     else Inr w1))
         else px4_clone_fresh tools cfg w) of
        Inl e \<Rightarrow> Inl e
      | Inr w3 \<Rightarrow> px4_patch_once tools cfg w3)"
  by pat_completeness auto
termination
  by (relation "measure (\<lambda>(tools, cfg, w). if isdir w (PX4_DIR cfg) then 1 else 0)")
    (auto simp: px4_nuke_removes_checkout)

declare clone_px4.simps [simp del]

subsection \<open>install_dependencies (lines 143--160)\<close>


subsection \<open>build_pymavlink (lines 163--242)\<close>

definition pymavlink_check_patch_file :: "config \<Rightarrow> string" where
  "pymavlink_check_patch_file cfg = os_path_join (BUILD_DIR cfg) [''.pymavlink-patched'']"

definition git_reset_cmd :: "config \<Rightarrow> cmd" where
  "git_reset_cmd cfg = Cmd [''git'', ''reset'', ''--hard''] (Some (PYMAVLINK_DIR cfg)) None"

definition git_apply_pymavlink_cmd :: "config \<Rightarrow> cmd" where
  "git_apply_pymavlink_cmd cfg =
     Cmd [''git'', ''apply'', ''--ignore-space-change'', ''--ignore-whitespace'',
          os_path_join (THIS_DIR cfg)
            [''patches'', ''pymavlink_'' @ PX4_VERSION cfg @ ''.patch'']]
       (Some (PYMAVLINK_DIR cfg)) None"

text \<open>Lines 171--185: the patch of the codec generator, guarded by its marker.\<close>

definition pymavlink_patch_once :: "tools \<Rightarrow> config \<Rightarrow> step" where
  "pymavlink_patch_once tools cfg w =
     (if \<not> isfile w (pymavlink_check_patch_file cfg) then
        run_steps [print2 ''Applying Pymavlink patch'',
                   check_call tools (git_reset_cmd cfg),
                   check_call tools (git_apply_pymavlink_cmd cfg),
                   touch_file (pymavlink_check_patch_file cfg)] w
      else Inr w)"

definition pymavlink_definitions_dir :: "config \<Rightarrow> string" where
  "pymavlink_definitions_dir cfg =
     os_path_join (PYMAVLINK_DIR cfg) [''message_definitions'', ''v1.0'']"

text \<open>Lines 187--196: the message definitions of the firmware tree replace the generator's.\<close>

definition copy_message_definitions :: "config \<Rightarrow> string \<Rightarrow> step" where
  "copy_message_definitions cfg message_definitions_dir =
     run_steps [print2 ''Copying message definitions'',
                rmtree_ignore_errors (pymavlink_definitions_dir cfg),
                copytree message_definitions_dir (pymavlink_definitions_dir cfg)]"

text \<open>\<open>d[k] = v\<close> on a dictionary in insertion order.\<close>

fun dict_set :: "'k \<Rightarrow> 'v \<Rightarrow> ('k \<times> 'v) list \<Rightarrow> ('k \<times> 'v) list" where
  "dict_set k v [] = [(k, v)]"
| "dict_set k v ((k', v') # kvs) =
     (if k' = k then (k, v) # kvs else (k', v') # dict_set k v kvs)"

definition setup_py_cmd :: "config \<Rightarrow> cmd" where
  "setup_py_cmd cfg =
     Cmd [sys_executable cfg, ''setup.py'', ''sdist'', ''bdist_wheel'']
       (Some (PYMAVLINK_DIR cfg))
       (Some (dict_set ''MAVLINK_DIALECT'' ''bell'' (os_environ cfg)))"

definition copy_outputs :: "tools \<Rightarrow> config \<Rightarrow> step" where
  "copy_outputs tools cfg w =
     (let pymavlink_dist_dir = os_path_join (PYMAVLINK_DIR cfg) [''dist'']
      in case listdir tools pymavlink_dist_dir w of
           Inl e \<Rightarrow> Inl e
         | Inr filenames \<Rightarrow>
             for_each (\<lambda>filename.
                 copyfile (os_path_join pymavlink_dist_dir [filename])
                          (os_path_join (DIST_DIR cfg) [filename]))
               filenames w)"

definition mavgen_wlua_cmd :: "config \<Rightarrow> string \<Rightarrow> cmd" where
  "mavgen_wlua_cmd cfg bell_xml_def =
     Cmd [sys_executable cfg, ''-m'', ''pymavlink.tools.mavgen'', ''--lang=WLua'',
          ''--wire-protocol=2.0'',
          ''--output='' @ os_path_join (DIST_DIR cfg) [''bell-avr.lua''],
          bell_xml_def]
       (Some (os_path_join (PYMAVLINK_DIR cfg) [''..''])) None"

text \<open>Lines 198--242: the package is built and copied out, then the analyzer plugin.\<close>

definition pymavlink_package :: "tools \<Rightarrow> config \<Rightarrow> string \<Rightarrow> bool \<Rightarrow> step" where
  "pymavlink_package tools cfg bell_xml_def should_build_wireshark =
     run_steps
       [print2 ''Building package'',
        check_call tools (setup_py_cmd cfg),
        copy_outputs tools cfg,
        (\<lambda>w. if should_build_wireshark then
                run_steps [print2 ''Building wireshark plugin'',
                           check_call tools (mavgen_wlua_cmd cfg bell_xml_def)] w
              else Inr w)]"

definition build_pymavlink :: "tools \<Rightarrow> config \<Rightarrow> string \<Rightarrow> string \<Rightarrow> bool \<Rightarrow> step" where
  "build_pymavlink tools cfg message_definitions_dir bell_xml_def should_build_wireshark =
     run_steps
       [print2 ''Generating pymavlink package'',
        pymavlink_patch_once tools cfg,
        copy_message_definitions cfg message_definitions_dir,
        pymavlink_package tools cfg bell_xml_def should_build_wireshark]"

subsection \<open>build_px4 (lines 245--259)\<close>





subsection \<open>main (lines 262--356)\<close>

definition message_definitions_dir :: "config \<Rightarrow> string" where
  "message_definitions_dir cfg =
     (if PX4_VERSION cfg < ''v1.13.0''
      then os_path_join (PX4_DIR cfg)
             [''mavlink'', ''include'', ''mavlink'', ''v2.0'', ''message_definitions'']
      else os_path_join (PX4_DIR cfg)
             [''src'', ''modules'', ''mavlink'', ''mavlink'', ''message_definitions'', ''v1.0''])"


definition bell_xml_def :: "config \<Rightarrow> string" where
  "bell_xml_def cfg = os_path_join (message_definitions_dir cfg) [''bell.xml'']"

definition mavlink_check_patch_file :: "config \<Rightarrow> string" where
  "mavlink_check_patch_file cfg = os_path_join (BUILD_DIR cfg) [''.mavlink-commited'']"









section \<open>What a step records\<close>

text \<open>
  \<open>emits s evs\<close>: wherever the step \<open>s\<close> returns it has appended \<open>evs\<close> to the log, and
  wherever it raises it has left the log as it was.
\<close>

definition emits :: "step \<Rightarrow> event list \<Rightarrow> bool" where
  "emits s evs =
     (\<forall>w. case s w of Inr w' \<Rightarrow> log w' = log w @ evs | Inl (e, w') \<Rightarrow> log w' = log w)"

text \<open>
  \<open>records P s\<close>: whatever its outcome, the step \<open>s\<close> only appends to the log, and
  every effect it appends satisfies \<open>P\<close>.
\<close>

definition records :: "(event \<Rightarrow> bool) \<Rightarrow> step \<Rightarrow> bool" where
  "records P s = (\<forall>w. \<exists>evs. log (final_world (s w)) = log w @ evs \<and> list_all P evs)"

text \<open>
  What the script itself may create: the three marker files of the build directory, the
  output directory, and files and trees under the firmware checkout, the codec
  generator's checkout and the output directory. Removals and what the external
  programs do are not restricted here.
\<close>

definition inside_outputs :: "config \<Rightarrow> string \<Rightarrow> bool" where
  "inside_outputs cfg p =
     (is_under (PX4_DIR cfg) p \<or> is_under (PYMAVLINK_DIR cfg) p \<or> is_under (DIST_DIR cfg) p)"

definition permitted_write :: "config \<Rightarrow> event \<Rightarrow> bool" where
  "permitted_write cfg ev =
     (case ev of
        Touch p \<Rightarrow>
          p = os_path_join (BUILD_DIR cfg) [''.px4-patched''] \<or>
          p = os_path_join (BUILD_DIR cfg) [''.pymavlink-patched''] \<or>
          p = os_path_join (BUILD_DIR cfg) [''.mavlink-commited'']
      | Makedirs p \<Rightarrow> p = DIST_DIR cfg
      | Copyfile src dst \<Rightarrow> inside_outputs cfg dst
      | Copytree src dst \<Rightarrow> inside_outputs cfg dst
      | CheckCall c \<Rightarrow> True
      | CheckOutput c \<Rightarrow> True
      | Rmtree p \<Rightarrow> True
      | RmtreeIgnoreErrors p \<Rightarrow> True)"

section \<open>Concrete inputs\<close>

text \<open>
  A repository at \<open>/repo\<close> pinned to a given version; tools that always exit with status
  zero and leave the files alone, the version-control query printing a given text; a
  world with the given directories and (empty) files.
\<close>

definition cfg_at :: "string \<Rightarrow> config" where
  "cfg_at v = \<lparr>THIS_DIR = ''/repo'', PX4_VERSION = v,
     sys_executable = ''/usr/bin/python3'', os_environ = [(''HOME'', ''/root'')]\<rparr>"

definition tools_ok :: "string \<Rightarrow> tools" where
  "tools_ok text = \<lparr>call_result = (\<lambda>h c f. (True, f)),
     output_text = (\<lambda>h c f. Some text),
     dir_listing = (\<lambda>h d f. [])\<rparr>"

definition world_of :: "string list \<Rightarrow> string list \<Rightarrow> world" where
  "world_of ds fnames =
     \<lparr>fs = \<lparr>dirs = (\<lambda>p. p \<in> set ds),
            files = (\<lambda>p. if p \<in> set fnames then Some [] else None)\<rparr>,
      log = [], stdout = []\<rparr>"

text \<open>
  A world in which the firmware checkout of version \<open>v\<close> exists and is marked as
  patched; one in which the codec generator's own checkout exists; and the text the
  version-control query prints for a checkout whose remote reference is the tag \<open>v\<close>.
\<close>

definition checkout_world :: "string \<Rightarrow> world" where
  "checkout_world v =
     world_of [''/repo'', ''/repo/build'', ''/repo/build/'' @ v,
               ''/repo/build/'' @ v @ ''/PX4-Autopilot'']
              [''/repo/build/'' @ v @ ''/.px4-patched'']"

definition pymavlink_world :: "string \<Rightarrow> world" where
  "pymavlink_world v =
     world_of [''/repo'', ''/repo/build'', ''/repo/build/'' @ v,
               ''/repo/build/'' @ v @ ''/pymavlink''] []"

definition remote_text :: "string \<Rightarrow> string" where
  "remote_text v = ''* remote origin\<newline>  HEAD branch: (not queried)\<newline>    refs/tags/'' @ v @ ''\<newline>''"

definition remote_text_without_refs :: string where
  "remote_text_without_refs = ''* remote origin\<newline>  HEAD branch: (not queried)\<newline>''"


definition patched_world :: world where
  "patched_world =
     world_of [''/repo'', ''/repo/build'', ''/repo/build/v1.12.3'',
               ''/repo/build/v1.12.3/PX4-Autopilot'', ''/repo/build/v1.12.3/pymavlink'',
               ''/repo/build/v1.12.3/PX4-Autopilot/mavlink/include/mavlink/v2.0/message_definitions'']
              [''/repo/bell.xml'', ''/repo/build/v1.12.3/.px4-patched'',
               ''/repo/build/v1.12.3/.pymavlink-patched'',
               ''/repo/build/v1.12.3/.mavlink-commited'']"


text \<open>
  Tools closer to the real ones: \<open>git clone\<close> creates the directory it is given,
  with the directories above it, and every other command leaves the files alone; the
  exit status of each command is given by a predicate; the version-control query prints
  a given text and a directory lists given names.
\<close>

definition git_clone_effect :: "cmd \<Rightarrow> fsys \<Rightarrow> fsys" where
  "git_clone_effect c f =
     (if take 2 (argv c) = [''git'', ''clone''] \<and> 4 \<le> length (argv c)
      then f\<lparr>dirs := (\<lambda>p. dirs f p \<or> is_under p (argv c ! 3))\<rparr> else f)"

definition tools_git :: "(cmd \<Rightarrow> bool) \<Rightarrow> string \<Rightarrow> string list \<Rightarrow> tools" where
  "tools_git ok text names =
     \<lparr>call_result = (\<lambda>h c f. (ok c, git_clone_effect c f)),
      output_text = (\<lambda>h c f. Some text),
      dir_listing = (\<lambda>h d f. names)\<rparr>"

text \<open>A build directory with no checkout in it.\<close>

definition bare_world :: world where
  "bare_world = world_of [''/repo'', ''/repo/build'', ''/repo/build/v1.12.3''] []"

section \<open>Paths\<close>

lemma under_join2_step:
  "is_under d x \<Longrightarrow> \<not> startswith b ''/'' \<Longrightarrow> is_under d (join2 x b)"
  by (auto simp: is_under_def join2_def as_dir_def startswith_def endswith_def)

lemma under_refl: "d \<noteq> [] \<Longrightarrow> is_under d d"
  by (simp add: is_under_def)

lemma under_foldl_join2:
  "is_under d x \<Longrightarrow> list_all (\<lambda>b. \<not> startswith b ''/'') ps \<Longrightarrow> is_under d (foldl join2 x ps)"
  by (induction ps arbitrary: x) (auto simp: under_join2_step)

lemma under_os_path_join:
  "is_under d x \<Longrightarrow> list_all (\<lambda>b. \<not> startswith b ''/'') ps \<Longrightarrow> is_under d (os_path_join x ps)"
  by (simp add: os_path_join_def under_foldl_join2)

lemma PX4_DIR_nonempty: "PX4_DIR cfg \<noteq> []"
  by (auto simp: PX4_DIR_def os_path_join_def join2_def startswith_def)

lemma pymavlink_not_in_px4:
  "PX4_VERSION cfg < ''v1.13.0'' \<Longrightarrow> \<not> is_under (PX4_DIR cfg) (PYMAVLINK_DIR cfg)"
  by (auto simp: PYMAVLINK_DIR_def PX4_DIR_def os_path_join_def join2_def is_under_def as_dir_def
      startswith_def endswith_def)

lemma join2_as_dir: "d \<noteq> [] \<Longrightarrow> \<not> startswith x ''/'' \<Longrightarrow> join2 d x = as_dir d @ x"
  by (auto simp: join2_def as_dir_def)

lemma as_dir_nonempty: "as_dir d \<noteq> []"
  by (auto simp: as_dir_def endswith_def)

lemmas path_defs = BUILD_DIR_def PX4_DIR_def PYMAVLINK_DIR_def DIST_DIR_def os_path_join_def
  join2_def startswith_def endswith_def cfg_at_def

lemma BUILD_child:
  "\<not> startswith name ''/'' \<Longrightarrow>
   os_path_join (BUILD_DIR cfg) [name] = as_dir (BUILD_DIR cfg) @ name"
  by (simp add: os_path_join_def join2_as_dir BUILD_DIR_nonempty)

lemma endswith_slash_iff: "endswith s ''/'' \<longleftrightarrow> s \<noteq> [] \<and> last s = CHR ''/''"
  by (cases s rule: rev_cases) (auto simp: endswith_def)

lemma join2_append_plain:
  "a \<noteq> [] \<Longrightarrow> last a \<noteq> CHR ''/'' \<Longrightarrow> \<not> startswith b ''/'' \<Longrightarrow>
   join2 (x @ a) b = x @ a @ ''/'' @ b"
  by (simp add: join2_def endswith_slash_iff)

lemma as_dir_append_plain:
  "a \<noteq> [] \<Longrightarrow> last a \<noteq> CHR ''/'' \<Longrightarrow> as_dir (x @ a) = x @ a @ ''/''"
  by (simp add: as_dir_def endswith_slash_iff)

lemma clone_pymavlink_below:
  assumes "PX4_VERSION cfg < ''v1.13.0''"
  shows "(let c = (if isdir w (PYMAVLINK_DIR cfg)
                then Cmd [''git'', ''pull''] (Some (PYMAVLINK_DIR cfg)) None
                else Cmd [''git'', ''clone'', ''https://github.com/ardupilot/pymavlink'',
                          PYMAVLINK_DIR cfg] None None);
           msg = (if isdir w (PYMAVLINK_DIR cfg)
                  then ''--- Updating pymavlink'' else ''--- Cloning pymavlink'');
           r = call_result tools (log w) c (fs w)
       in clone_pymavlink tools cfg w =
            (if fst r
             then Inr (w\<lparr>fs := snd r, log := log w @ [CheckCall c], stdout := stdout w @ [msg]\<rparr>)
             else Inl (CalledProcessError c, w\<lparr>fs := snd r, stdout := stdout w @ [msg]\<rparr>)))"
  using assms
  by (auto simp: clone_pymavlink_def print2_def print_def check_call_def done_by_def
      git_pull_cmd_def git_clone_pymavlink_cmd_def Let_def split: prod.splits)

section \<open>Layout resolution\<close>

text \<open>
  C4. The layout is decided by one comparison of the version string with \<open>v1.13.0\<close> in
  the lexicographic order of strings. Below the threshold the codec generator is the
  directory \<open>pymavlink\<close> directly in the build directory, outside the firmware checkout,
  and \<open>clone_pymavlink\<close> runs exactly one command, \<open>git pull\<close> in the checkout when it
  exists and \<open>git clone\<close> otherwise, on the log and files as they are: it returns with
  the files the command left and the command recorded when the command exits with status
  zero, and raises \<open>CalledProcessError\<close> otherwise. At or above the threshold the codec
  generator lies inside the firmware checkout and \<open>clone_pymavlink\<close> returns at once, the
  world unchanged.
\<close>

theorem layout_resolution:
  "(PX4_VERSION cfg < ''v1.13.0'' \<longrightarrow>
      PYMAVLINK_DIR cfg = os_path_join (BUILD_DIR cfg) [''pymavlink''] \<and>
      PYMAVLINK_DIR cfg = as_dir (BUILD_DIR cfg) @ ''pymavlink'' \<and>
      is_under (BUILD_DIR cfg) (PYMAVLINK_DIR cfg) \<and>
      \<not> is_under (PX4_DIR cfg) (PYMAVLINK_DIR cfg) \<and>
      (let c = (if isdir w (PYMAVLINK_DIR cfg)
                then Cmd [''git'', ''pull''] (Some (PYMAVLINK_DIR cfg)) None
                else Cmd [''git'', ''clone'', ''https://github.com/ardupilot/pymavlink'',
                          PYMAVLINK_DIR cfg] None None);
           msg = (if isdir w (PYMAVLINK_DIR cfg)
                  then ''--- Updating pymavlink'' else ''--- Cloning pymavlink'');
           r = call_result tools (log w) c (fs w)
       in clone_pymavlink tools cfg w =
            (if fst r
             then Inr (w\<lparr>fs := snd r, log := log w @ [CheckCall c], stdout := stdout w @ [msg]\<rparr>)
             else Inl (CalledProcessError c, w\<lparr>fs := snd r, stdout := stdout w @ [msg]\<rparr>)))) \<and>
   (\<not> PX4_VERSION cfg < ''v1.13.0'' \<longrightarrow>
      PYMAVLINK_DIR cfg =
        os_path_join (PX4_DIR cfg) [''src'', ''modules'', ''mavlink'', ''mavlink'', ''pymavlink''] \<and>
      PYMAVLINK_DIR cfg = as_dir (PX4_DIR cfg) @ ''src/modules/mavlink/mavlink/pymavlink'' \<and>
      is_under (PX4_DIR cfg) (PYMAVLINK_DIR cfg) \<and>
      clone_pymavlink tools cfg w = Inr w)"
proof (cases "PX4_VERSION cfg < ''v1.13.0''")
  case True
  have p: "PYMAVLINK_DIR cfg = os_path_join (BUILD_DIR cfg) [''pymavlink'']"
    using True by (simp add: PYMAVLINK_DIR_def)
  have q: "PYMAVLINK_DIR cfg = as_dir (BUILD_DIR cfg) @ ''pymavlink''"
    unfolding p by (rule BUILD_child) (simp add: startswith_def)
  have u: "is_under (BUILD_DIR cfg) (PYMAVLINK_DIR cfg)"
    unfolding p
    by (rule under_os_path_join) (simp_all add: under_refl BUILD_DIR_nonempty startswith_def)
  show ?thesis
    using True p q u pymavlink_not_in_px4 [OF True] clone_pymavlink_below [OF True, of w tools]
    by blast
next
  case False
  have p: "PYMAVLINK_DIR cfg =
        os_path_join (PX4_DIR cfg) [''src'', ''modules'', ''mavlink'', ''mavlink'', ''pymavlink'']"
    using False by (simp add: PYMAVLINK_DIR_def)
  have q: "PYMAVLINK_DIR cfg = as_dir (PX4_DIR cfg) @ ''src/modules/mavlink/mavlink/pymavlink''"
    unfolding p
    by (simp add: os_path_join_def join2_as_dir as_dir_append_plain PX4_DIR_nonempty
        startswith_def)
  have u: "is_under (PX4_DIR cfg) (PYMAVLINK_DIR cfg)"
    unfolding p
    by (rule under_os_path_join) (simp_all add: under_refl PX4_DIR_nonempty startswith_def)
  have c: "clone_pymavlink tools cfg w = Inr w"
    using False by (auto simp: clone_pymavlink_def)
  show ?thesis using False p q u c by blast
qed

text \<open>
  The comparison is the one of strings, not of version numbers: \<open>v1.12.3\<close> is below the
  threshold and \<open>v1.9.0\<close> is not. Below the threshold a clone, an update and a failing
  update are run.
\<close>

theorem layout_resolution_witness:
  "PX4_VERSION (cfg_at ''v1.12.3'') < ''v1.13.0'' \<and>
   PYMAVLINK_DIR (cfg_at ''v1.12.3'') = as_dir (BUILD_DIR (cfg_at ''v1.12.3'')) @ ''pymavlink'' \<and>
   \<not> is_under (PX4_DIR (cfg_at ''v1.12.3'')) (PYMAVLINK_DIR (cfg_at ''v1.12.3'')) \<and>
   clone_pymavlink (tools_git (\<lambda>c. True) [] []) (cfg_at ''v1.12.3'') bare_world =
     Inr (bare_world
       \<lparr>fs := (fs bare_world)
          \<lparr>dirs := (\<lambda>p. dirs (fs bare_world) p \<or> is_under p ''/repo/build/v1.12.3/pymavlink'')\<rparr>,
        log := [CheckCall (Cmd [''git'', ''clone'', ''https://github.com/ardupilot/pymavlink'',
                                ''/repo/build/v1.12.3/pymavlink''] None None)],
        stdout := [''--- Cloning pymavlink'']\<rparr>) \<and>
   clone_pymavlink (tools_git (\<lambda>c. True) [] []) (cfg_at ''v1.12.3'') (pymavlink_world ''v1.12.3'') =
     Inr ((pymavlink_world ''v1.12.3'')
       \<lparr>log := [CheckCall (Cmd [''git'', ''pull''] (Some ''/repo/build/v1.12.3/pymavlink'') None)],
        stdout := [''--- Updating pymavlink'']\<rparr>) \<and>
   clone_pymavlink (tools_git (\<lambda>c. False) [] []) (cfg_at ''v1.12.3'') (pymavlink_world ''v1.12.3'') =
     Inl (CalledProcessError (Cmd [''git'', ''pull''] (Some ''/repo/build/v1.12.3/pymavlink'') None),
          (pymavlink_world ''v1.12.3'')\<lparr>stdout := [''--- Updating pymavlink'']\<rparr>) \<and>
   \<not> PX4_VERSION (cfg_at ''v1.9.0'') < ''v1.13.0'' \<and>
   is_under (PX4_DIR (cfg_at ''v1.9.0'')) (PYMAVLINK_DIR (cfg_at ''v1.9.0'')) \<and>
   clone_pymavlink (tools_ok []) (cfg_at ''v1.9.0'') (world_of [] []) = Inr (world_of [] [])"
proof -
  let ?C = "cfg_at ''v1.12.3''"
  let ?clone = "Cmd [''git'', ''clone'', ''https://github.com/ardupilot/pymavlink'',
      ''/repo/build/v1.12.3/pymavlink''] None None"
  let ?pull = "Cmd [''git'', ''pull''] (Some ''/repo/build/v1.12.3/pymavlink'') None"
  have below: "PX4_VERSION ?C < ''v1.13.0''"
    by (simp add: cfg_at_def)
  have above: "\<not> PX4_VERSION (cfg_at ''v1.9.0'') < ''v1.13.0''"
    by (simp add: cfg_at_def)
  have p: "PYMAVLINK_DIR ?C = ''/repo/build/v1.12.3/pymavlink''"
    by (simp add: path_defs)
  have absent: "\<not> isdir bare_world (PYMAVLINK_DIR ?C)"
    unfolding p by (simp add: bare_world_def world_of_def isdir_def)
  have present: "isdir (pymavlink_world ''v1.12.3'') (PYMAVLINK_DIR ?C)"
    unfolding p by (simp add: pymavlink_world_def world_of_def isdir_def)
  have logs: "log bare_world = []" "stdout bare_world = []"
    "log (pymavlink_world ''v1.12.3'') = []" "stdout (pymavlink_world ''v1.12.3'') = []"
    by (simp_all add: bare_world_def pymavlink_world_def world_of_def)
  have r: "call_result (tools_git ok [] []) h c f = (ok c, git_clone_effect c f)" for ok h c f
    by (simp add: tools_git_def)
  have e1: "git_clone_effect ?clone f =
      f\<lparr>dirs := (\<lambda>p. dirs f p \<or> is_under p ''/repo/build/v1.12.3/pymavlink'')\<rparr>" for f
    by (simp add: git_clone_effect_def)
  have e2: "git_clone_effect ?pull f = f" for f
    by (simp add: git_clone_effect_def)
  note t1 = layout_resolution [of ?C bare_world "tools_git (\<lambda>c. True) [] []",
      unfolded Let_def, THEN conjunct1, THEN mp, OF below]
  note t2 = layout_resolution [of ?C "pymavlink_world ''v1.12.3''"
      "tools_git (\<lambda>c. True) [] []", unfolded Let_def, THEN conjunct1, THEN mp, OF below]
  note t3 = layout_resolution [of ?C "pymavlink_world ''v1.12.3''"
      "tools_git (\<lambda>c. False) [] []", unfolded Let_def, THEN conjunct1, THEN mp, OF below]
  note t4 = layout_resolution [of "cfg_at ''v1.9.0''" "world_of [] []" "tools_ok []",
      THEN conjunct2, THEN mp, OF above]
  note a1 = t1 [THEN conjunct2, THEN conjunct1]
  note a2 = t1 [THEN conjunct2, THEN conjunct2, THEN conjunct2, THEN conjunct1]
  note q1 = t1 [THEN conjunct2, THEN conjunct2, THEN conjunct2, THEN conjunct2]
  note q2 = t2 [THEN conjunct2, THEN conjunct2, THEN conjunct2, THEN conjunct2]
  note q3 = t3 [THEN conjunct2, THEN conjunct2, THEN conjunct2, THEN conjunct2]
  note d1 = t4 [THEN conjunct2, THEN conjunct2, THEN conjunct1]
  note d2 = t4 [THEN conjunct2, THEN conjunct2, THEN conjunct2]
  have c1: "clone_pymavlink (tools_git (\<lambda>c. True) [] []) ?C bare_world =
      Inr (bare_world
       \<lparr>fs := (fs bare_world)
          \<lparr>dirs := (\<lambda>p. dirs (fs bare_world) p \<or> is_under p ''/repo/build/v1.12.3/pymavlink'')\<rparr>,
        log := [CheckCall ?clone], stdout := [''--- Cloning pymavlink'']\<rparr>)"
    unfolding q1 using absent by (simp add: logs r e1 p)
  have c2: "clone_pymavlink (tools_git (\<lambda>c. True) [] []) ?C (pymavlink_world ''v1.12.3'') =
      Inr ((pymavlink_world ''v1.12.3'')
       \<lparr>log := [CheckCall ?pull], stdout := [''--- Updating pymavlink'']\<rparr>)"
    unfolding q2 using present by (simp add: logs r e2 p)
  have c3: "clone_pymavlink (tools_git (\<lambda>c. False) [] []) ?C (pymavlink_world ''v1.12.3'') =
      Inl (CalledProcessError ?pull,
          (pymavlink_world ''v1.12.3'')\<lparr>stdout := [''--- Updating pymavlink'']\<rparr>)"
    unfolding q3 using present by (simp add: logs r e2 p)
  show ?thesis
    using below above a1 a2 c1 c2 c3 d1 d2 by (intro conjI)
qed

section \<open>The firmware checkout\<close>

lemma touch_file_marks:
  "touch_file m w = Inr w' \<Longrightarrow> isfile w' m \<and> log w' = log w @ [Touch m]"
  by (auto simp: touch_file_def open_w_def isfile_def done_by_def split: if_splits)

lemma px4_patch_once_marked:
  "px4_patch_once tools cfg w = Inr w' \<Longrightarrow> isfile w' (px4_check_patch_file cfg)"
  by (auto simp: px4_patch_once_def print2_def print_def check_call_def done_by_def
      dest!: touch_file_marks split: if_splits prod.splits sum.splits)

lemma px4_patch_once_skip:
  "isfile w (px4_check_patch_file cfg) \<Longrightarrow> px4_patch_once tools cfg w = Inr w"
  by (simp add: px4_patch_once_def)

lemma px4_patch_once_again:
  "px4_patch_once tools cfg w = Inr w' \<Longrightarrow> px4_patch_once tools' cfg w' = Inr w'"
  by (rule px4_patch_once_skip) (rule px4_patch_once_marked)

lemma clone_px4_fresh:
  "\<not> isdir w (PX4_DIR cfg) \<Longrightarrow>
   clone_px4 tools cfg w = run_steps [px4_clone_fresh tools cfg, px4_patch_once tools cfg] w"
  by (subst clone_px4.simps) (simp split: sum.splits)

lemma clone_px4_marked:
  "clone_px4 tools cfg w = Inr w' \<Longrightarrow> isfile w' (px4_check_patch_file cfg)"
  by (subst (asm) clone_px4.simps) (auto split: sum.splits dest: px4_patch_once_marked)

lemma clone_px4_probe:
  assumes "isdir w (PX4_DIR cfg)"
    and "output_text tools (log w) (git_remote_show_cmd cfg) (fs w) = Some text"
  shows "clone_px4 tools cfg w =
     (case local_version_of text of
        None \<Rightarrow> Inl (StopIteration, done_by [CheckOutput (git_remote_show_cmd cfg)] w)
      | Some v \<Rightarrow>
          if v \<noteq> PX4_VERSION cfg then
            (case px4_nuke cfg v (done_by [CheckOutput (git_remote_show_cmd cfg)] w) of
               Inl e \<Rightarrow> Inl e
             | Inr w2 \<Rightarrow> clone_px4 tools cfg w2)
          else px4_patch_once tools cfg (done_by [CheckOutput (git_remote_show_cmd cfg)] w))"
  using assms
  by (subst clone_px4.simps)
    (auto simp: check_output_def split: sum.splits option.splits
      dest: clone_px4_marked px4_patch_once_skip)

lemma find_filter: "find P xs = (case filter P xs of [] \<Rightarrow> None | x # _ \<Rightarrow> Some x)"
  by (induction xs) auto

lemma px4_patch_once_no_stop:
  "px4_patch_once tools cfg w = Inl (e, w') \<Longrightarrow> e \<noteq> StopIteration"
  by (auto simp: px4_patch_once_def print2_def print_def check_call_def done_by_def
      touch_file_def open_w_def split: if_splits prod.splits sum.splits)

lemma px4_clone_fresh_no_stop:
  "px4_clone_fresh tools cfg w = Inl (e, w') \<Longrightarrow> e \<noteq> StopIteration"
  by (auto simp: px4_clone_fresh_def print2_def print_def check_call_def done_by_def
      split: if_splits prod.splits sum.splits)

lemma px4_nuke_no_stop:
  "px4_nuke cfg v w = Inl (e, w') \<Longrightarrow> e \<noteq> StopIteration"
  by (auto simp: px4_nuke_def print_def rmtree_def split: if_splits sum.splits)

lemma clone_px4_fresh_no_stop:
  "\<not> isdir w (PX4_DIR cfg) \<Longrightarrow> clone_px4 tools cfg w = Inl (e, w') \<Longrightarrow> e \<noteq> StopIteration"
  by (auto simp: clone_px4_fresh split: sum.splits
      dest: px4_patch_once_no_stop px4_clone_fresh_no_stop)










text \<open>
  C9. When the firmware checkout exists, the local version is read from the first line
  of the query's text that starts with \<open>refs\<close> once stripped, as its last component
  split at \<open>/\<close>. When the text has no such line, \<open>clone_px4\<close> raises \<open>StopIteration\<close>
  right after the query; when it has one, \<open>clone_px4\<close> never raises \<open>StopIteration\<close>.
\<close>

theorem local_version_probe:
  assumes "isdir w (PX4_DIR cfg)"
    and "output_text tools (log w)
           (Cmd [''git'', ''remote'', ''show'', ''origin'', ''-n''] (Some (PX4_DIR cfg)) None)
           (fs w) = Some text"
  shows "case find (\<lambda>l. startswith (strip l) ''refs'') (splitlines text) of
           None \<Rightarrow>
             clone_px4 tools cfg w =
               Inl (StopIteration,
                    done_by [CheckOutput (Cmd [''git'', ''remote'', ''show'', ''origin'', ''-n'']
                                           (Some (PX4_DIR cfg)) None)] w)
         | Some l \<Rightarrow>
             local_version_of text = Some (last (split_on (CHR ''/'') l)) \<and>
             (\<forall>e w'. clone_px4 tools cfg w = Inl (e, w') \<longrightarrow> e \<noteq> StopIteration)"
proof (cases "find (\<lambda>l. startswith (strip l) ''refs'') (splitlines text)")
  case None
  then have "local_version_of text = None"
    by (simp add: local_version_of_def find_filter split: list.splits)
  with assms None show ?thesis
    by (simp add: clone_px4_probe [unfolded git_remote_show_cmd_def] git_remote_show_cmd_def)
next
  case (Some l)
  then have v: "local_version_of text = Some (last (split_on (CHR ''/'') l))"
    by (simp add: local_version_of_def find_filter split: list.splits)
  have "e \<noteq> StopIteration" if "clone_px4 tools cfg w = Inl (e, w')" for e w'
    using that assms v
    by (auto simp: clone_px4_probe [unfolded git_remote_show_cmd_def] git_remote_show_cmd_def
        split: if_splits sum.splits
        dest: px4_patch_once_no_stop px4_nuke_no_stop px4_nuke_removes_checkout
          clone_px4_fresh_no_stop)
  with Some v show ?thesis by simp
qed

theorem local_version_probe_witness:
  "isdir (checkout_world ''v1.12.1'') (PX4_DIR (cfg_at ''v1.12.1'')) \<and>
   find (\<lambda>l. startswith (strip l) ''refs'') (splitlines remote_text_without_refs) = None \<and>
   clone_px4 (tools_ok remote_text_without_refs) (cfg_at ''v1.12.1'') (checkout_world ''v1.12.1'') =
     Inl (StopIteration,
          done_by [CheckOutput (Cmd [''git'', ''remote'', ''show'', ''origin'', ''-n'']
                                 (Some (PX4_DIR (cfg_at ''v1.12.1''))) None)]
            (checkout_world ''v1.12.1'')) \<and>
   find (\<lambda>l. startswith (strip l) ''refs'') (splitlines (remote_text ''v1.12.0'')) =
     Some ''    refs/tags/v1.12.0'' \<and>
   local_version_of (remote_text ''v1.12.0'') =
     Some (last (split_on (CHR ''/'') ''    refs/tags/v1.12.0'')) \<and>
   last (split_on (CHR ''/'') ''    refs/tags/v1.12.0'') = ''v1.12.0''"
proof -
  have a: "isdir (checkout_world ''v1.12.1'') (PX4_DIR (cfg_at ''v1.12.1''))"
    by (simp add: checkout_world_def world_of_def isdir_def PX4_DIR_def BUILD_DIR_def
        os_path_join_def join2_def startswith_def endswith_def cfg_at_def)
  have q: "output_text (tools_ok t) h k f = Some t" for t h k f
    by (simp add: tools_ok_def)
  have none: "find (\<lambda>l. startswith (strip l) ''refs'') (splitlines remote_text_without_refs) = None"
    by (simp add: remote_text_without_refs_def splitlines_def strip_def
        is_space_def is_linebreak_def startswith_def)
  have some: "find (\<lambda>l. startswith (strip l) ''refs'') (splitlines (remote_text ''v1.12.0'')) =
      Some ''    refs/tags/v1.12.0''"
    by (simp add: remote_text_def splitlines_def strip_def
        is_space_def is_linebreak_def startswith_def)
  have comp: "last (split_on (CHR ''/'') ''    refs/tags/v1.12.0'') = ''v1.12.0''"
    by simp
  from local_version_probe [OF a q, of remote_text_without_refs]
    local_version_probe [OF a q, of "remote_text ''v1.12.0''"]
  show ?thesis
    unfolding none some option.case using a none some comp by blast
qed

section \<open>The codec generator's checkout\<close>

text \<open>
  C6. Below the threshold, when the codec generator's checkout exists, \<open>clone_pymavlink\<close>
  runs \<open>git pull\<close> in it and nothing else: whether the command succeeds or fails, the
  file system is the one the command left (nothing is removed, nothing is cloned), and
  the result does not depend on what a version query would print.
\<close>

theorem pymavlink_update_in_place:
  assumes "PX4_VERSION cfg < ''v1.13.0''" and "isdir w (PYMAVLINK_DIR cfg)"
  shows "(let pull = Cmd [''git'', ''pull''] (Some (PYMAVLINK_DIR cfg)) None;
              left = snd (call_result tools (log w) pull (fs w))
          in case clone_pymavlink tools cfg w of
               Inr w' \<Rightarrow> log w' = log w @ [CheckCall pull] \<and> fs w' = left
             | Inl (e, w') \<Rightarrow> e = CalledProcessError pull \<and> log w' = log w \<and> fs w' = left) \<and>
         clone_pymavlink (tools\<lparr>output_text := query\<rparr>) cfg w = clone_pymavlink tools cfg w"
  using assms
  by (auto simp: clone_pymavlink_def print2_def print_def check_call_def done_by_def
      git_pull_cmd_def Let_def split: prod.splits)

theorem pymavlink_update_in_place_witness:
  "PX4_VERSION (cfg_at ''v1.12.3'') < ''v1.13.0'' \<and>
   isdir (pymavlink_world ''v1.12.3'') (PYMAVLINK_DIR (cfg_at ''v1.12.3'')) \<and>
   PYMAVLINK_DIR (cfg_at ''v1.12.3'') = ''/repo/build/v1.12.3/pymavlink'' \<and>
   (let pull = Cmd [''git'', ''pull''] (Some (PYMAVLINK_DIR (cfg_at ''v1.12.3''))) None;
        left = snd (call_result (tools_ok []) (log (pymavlink_world ''v1.12.3'')) pull
                      (fs (pymavlink_world ''v1.12.3'')))
    in case clone_pymavlink (tools_ok []) (cfg_at ''v1.12.3'') (pymavlink_world ''v1.12.3'') of
         Inr w' \<Rightarrow> log w' = log (pymavlink_world ''v1.12.3'') @ [CheckCall pull] \<and> fs w' = left
       | Inl (e, w') \<Rightarrow> e = CalledProcessError pull \<and>
           log w' = log (pymavlink_world ''v1.12.3'') \<and> fs w' = left)"
proof -
  have v: "PX4_VERSION (cfg_at ''v1.12.3'') < ''v1.13.0''"
    by (simp add: cfg_at_def)
  have p: "PYMAVLINK_DIR (cfg_at ''v1.12.3'') = ''/repo/build/v1.12.3/pymavlink''"
    by (simp add: PYMAVLINK_DIR_def BUILD_DIR_def os_path_join_def join2_def startswith_def
        endswith_def cfg_at_def)
  have d: "isdir (pymavlink_world ''v1.12.3'') (PYMAVLINK_DIR (cfg_at ''v1.12.3''))"
    unfolding p by (simp add: pymavlink_world_def world_of_def isdir_def)
  from pymavlink_update_in_place [OF v d, of "tools_ok []" "output_text (tools_ok [])"] v d p
  show ?thesis by blast
qed


section \<open>Logs of step sequences\<close>


lemma check_call_Inl:
  "check_call tools c w = Inl (e, w') \<Longrightarrow> log w' = log w \<and> e = CalledProcessError c"
  by (auto simp: check_call_def done_by_def split: prod.splits if_splits)

lemma touch_file_Inl:
  "touch_file m w = Inl (e, w') \<Longrightarrow> w' = w"
  by (auto simp: touch_file_def open_w_def split: if_splits)


lemma copyfile_Inl:
  "copyfile src dst w = Inl (e, w') \<Longrightarrow> w' = w"
  by (auto simp: copyfile_def split: if_splits option.splits)

lemma print2_result: "print2 msg w = Inr (w\<lparr>stdout := stdout w @ [''--- '' @ msg]\<rparr>)"
  by (simp add: print2_def print_def)

lemma emits_print2: "emits (print2 msg) []"
  by (simp add: emits_def print2_result)


lemma emits_check_call: "emits (check_call tools c) [CheckCall c]"
  by (auto simp: emits_def check_call_def done_by_def split: prod.splits)


lemma emits_copyfile: "emits (copyfile src dst) [Copyfile src dst]"
  by (auto simp: emits_def copyfile_def done_by_def split: option.splits)

lemma emits_skip: "emits Inr []"
  by (simp add: emits_def)


lemma emits_Inr: "emits s evs \<Longrightarrow> s w = Inr w' \<Longrightarrow> log w' = log w @ evs"
  by (auto simp: emits_def split: sum.splits dest!: spec [of _ w])

lemma emits_Inl: "emits s evs \<Longrightarrow> s w = Inl (e, w') \<Longrightarrow> log w' = log w"
  by (auto simp: emits_def split: sum.splits dest!: spec [of _ w])





section \<open>Marker-guarded actions\<close>

lemma pymavlink_patch_once_skip:
  "isfile w (pymavlink_check_patch_file cfg) \<Longrightarrow> pymavlink_patch_once tools cfg w = Inr w"
  by (simp add: pymavlink_patch_once_def)










subsection \<open>The actions at the concrete inputs\<close>



lemma markers_at_example:
  "px4_check_patch_file (cfg_at ''v1.12.3'') = ''/repo/build/v1.12.3/.px4-patched''"
  "pymavlink_check_patch_file (cfg_at ''v1.12.3'') = ''/repo/build/v1.12.3/.pymavlink-patched''"
  "mavlink_check_patch_file (cfg_at ''v1.12.3'') = ''/repo/build/v1.12.3/.mavlink-commited''"
  by (simp_all add: px4_check_patch_file_def pymavlink_check_patch_file_def
      mavlink_check_patch_file_def path_defs)






lemma markers_present_example:
  "isfile patched_world (px4_check_patch_file (cfg_at ''v1.12.3''))"
  "isfile patched_world (pymavlink_check_patch_file (cfg_at ''v1.12.3''))"
  "isfile patched_world (mavlink_check_patch_file (cfg_at ''v1.12.3''))"
  by (simp_all add: markers_at_example patched_world_def world_of_def isfile_def)


subsection \<open>The patches\<close>



subsection \<open>The message and the commit\<close>



subsection \<open>Markers follow success\<close>




section \<open>Firmware images\<close>











section \<open>Effects of composed steps\<close>

lemma recordsD:
  "records P s \<Longrightarrow> \<exists>evs. log (final_world (s w)) = log w @ evs \<and> list_all P evs"
  by (simp add: records_def)

lemma records_emits: "emits s evs \<Longrightarrow> list_all P evs \<Longrightarrow> records P s"
  unfolding records_def emits_def
proof (intro allI)
  fix w
  assume a: "\<forall>w. case s w of Inl (e, w') \<Rightarrow> log w' = log w | Inr w' \<Rightarrow> log w' = log w @ evs"
    and p: "list_all P evs"
  show "\<exists>evs. log (final_world (s w)) = log w @ evs \<and> list_all P evs"
  proof (cases "s w")
    case (Inl a')
    with a [rule_format, of w] show ?thesis
      by (intro exI [of _ "[]"]) (auto simp: final_world_def split: prod.splits)
  next
    case (Inr w')
    with a [rule_format, of w] p show ?thesis
      by (intro exI [of _ evs]) (simp add: final_world_def)
  qed
qed

lemma records_skip: "records P Inr"
  by (simp add: records_def final_world_def)

lemma records_if: "records P s \<Longrightarrow> records P t \<Longrightarrow> records P (\<lambda>w. if b w then s w else t w)"
  by (simp add: records_def)

lemma records_seq:
  assumes "records P s" and "records P t"
  shows "records P (\<lambda>w. case s w of Inl e \<Rightarrow> Inl e | Inr w' \<Rightarrow> t w')"
  unfolding records_def
proof
  fix w
  from recordsD [OF assms(1), of w] obtain evs where
    e: "log (final_world (s w)) = log w @ evs" "list_all P evs" by blast
  show "\<exists>evs. log (final_world (case s w of Inl e \<Rightarrow> Inl e | Inr w' \<Rightarrow> t w')) = log w @ evs \<and>
      list_all P evs"
  proof (cases "s w")
    case (Inl a)
    with e show ?thesis by (auto simp: final_world_def)
  next
    case (Inr w')
    from recordsD [OF assms(2), of w'] obtain evs' where
      e': "log (final_world (t w')) = log w' @ evs'" "list_all P evs'" by blast
    from Inr e have "log w' = log w @ evs" by (simp add: final_world_def)
    with Inr e e' show ?thesis by (intro exI [of _ "evs @ evs'"]) simp
  qed
qed

lemma records_run_steps: "list_all (records P) ss \<Longrightarrow> records P (run_steps ss)"
proof (induction ss)
  case Nil
  have "run_steps [] = Inr" by (rule ext) simp
  then show ?case by (simp add: records_skip)
next
  case (Cons s ss)
  have "run_steps (s # ss) = (\<lambda>w. case s w of Inl e \<Rightarrow> Inl e | Inr w' \<Rightarrow> run_steps ss w')"
    by (rule ext) simp
  with Cons show ?case by (simp add: records_seq)
qed

lemma records_for_each: "(\<And>x. x \<in> set xs \<Longrightarrow> records P (body x)) \<Longrightarrow> records P (for_each body xs)"
proof (induction xs)
  case Nil
  have "for_each body [] = Inr" by (rule ext) simp
  then show ?case by (simp add: records_skip)
next
  case (Cons x xs)
  have "for_each body (x # xs) =
      (\<lambda>w. case body x w of Inl e \<Rightarrow> Inl e | Inr w' \<Rightarrow> for_each body xs w')"
    by (rule ext) simp
  with Cons show ?case by (simp add: records_seq)
qed

lemma rmtree_ignore_errors_result:
  "rmtree_ignore_errors d w =
     Inr (done_by [RmtreeIgnoreErrors d]
       (if dirs (fs w) d \<and> files (fs w) d = None then w\<lparr>fs := remove_tree d (fs w)\<rparr> else w))"
  by (simp add: rmtree_ignore_errors_def)


lemma emits_copytree: "emits (copytree src dst) [Copytree src dst]"
  by (auto simp: emits_def copytree_def done_by_def)

lemma records_copy_outputs:
  assumes "\<And>h f filename.
      filename \<in> set (dir_listing tools h (os_path_join (PYMAVLINK_DIR cfg) [''dist'']) f) \<Longrightarrow>
      P (Copyfile (os_path_join (os_path_join (PYMAVLINK_DIR cfg) [''dist'']) [filename])
                  (os_path_join (DIST_DIR cfg) [filename]))"
  shows "records P (copy_outputs tools cfg)"
  unfolding records_def
proof
  fix w
  let ?d = "os_path_join (PYMAVLINK_DIR cfg) [''dist'']"
  show "\<exists>evs. log (final_world (copy_outputs tools cfg w)) = log w @ evs \<and> list_all P evs"
  proof (cases "listdir tools ?d w")
    case (Inl a)
    then have "final_world (copy_outputs tools cfg w) = w"
      by (auto simp: copy_outputs_def listdir_def final_world_def split: if_splits)
    then show ?thesis by (intro exI [of _ "[]"]) simp
  next
    case (Inr names)
    then have n: "names = dir_listing tools (log w) ?d (fs w)"
      by (auto simp: listdir_def split: if_splits)
    have "records P (for_each (\<lambda>filename.
        copyfile (os_path_join ?d [filename]) (os_path_join (DIST_DIR cfg) [filename])) names)"
      by (rule records_for_each) (auto simp: n intro!: records_emits [OF emits_copyfile] assms)
    from recordsD [OF this, of w] Inr show ?thesis
      by (simp add: copy_outputs_def)
  qed
qed

section \<open>The message definitions of the codec generator\<close>

lemma records_pymavlink_package:
  "records (\<lambda>_. True) (pymavlink_package tools cfg bx ws)"
  unfolding pymavlink_package_def
  by (rule records_run_steps)
    (auto intro!: records_emits [OF emits_print2] records_emits [OF emits_check_call]
      records_copy_outputs records_if records_skip records_run_steps)

lemma join2_plain:
  "p \<noteq> [] \<Longrightarrow> \<not> endswith p ''/'' \<Longrightarrow> \<not> startswith b ''/'' \<Longrightarrow> join2 p b = p @ ''/'' @ b"
  by (simp add: join2_def)

lemma PX4_DIR_plain: "\<not> endswith (PX4_DIR cfg) ''/''"
  by (auto simp: PX4_DIR_def os_path_join_def join2_def startswith_def endswith_def)

text \<open>The two definition directories do not contain one another.\<close>

lemma definitions_dirs_apart:
  assumes "is_under (pymavlink_definitions_dir cfg) p"
  shows "\<not> is_under (pymavlink_definitions_dir cfg)
           (relocate (pymavlink_definitions_dir cfg) (message_definitions_dir cfg) p)"
proof (cases "PX4_VERSION cfg < ''v1.13.0''")
  case True
  define b where "b = as_dir (BUILD_DIR cfg)"
  have b: "b \<noteq> []"
    "PX4_DIR cfg = b @ ''PX4-Autopilot''" "PYMAVLINK_DIR cfg = b @ ''pymavlink''"
    using True
    by (simp_all add: b_def as_dir_nonempty PX4_DIR_def PYMAVLINK_DIR_def os_path_join_def
        join2_as_dir BUILD_DIR_nonempty startswith_def)
  have d: "pymavlink_definitions_dir cfg = b @ ''pymavlink/message_definitions/v1.0''"
    by (simp add: pymavlink_definitions_dir_def b os_path_join_def join2_def startswith_def
        endswith_def)
  have s: "message_definitions_dir cfg =
      b @ ''PX4-Autopilot/mavlink/include/mavlink/v2.0/message_definitions''"
    using True
    by (simp add: message_definitions_dir_def b os_path_join_def join2_def startswith_def
        endswith_def)
  show ?thesis
    by (auto simp: d s relocate_def is_under_def as_dir_def startswith_def endswith_def)
next
  case False
  define b where "b = as_dir (BUILD_DIR cfg)"
  have b: "b \<noteq> []" "PX4_DIR cfg = b @ ''PX4-Autopilot''"
    by (simp_all add: b_def as_dir_nonempty PX4_DIR_def os_path_join_def
        join2_as_dir BUILD_DIR_nonempty startswith_def)
  have d: "pymavlink_definitions_dir cfg =
      b @ ''PX4-Autopilot/src/modules/mavlink/mavlink/pymavlink/message_definitions/v1.0''"
    using False
    by (simp add: pymavlink_definitions_dir_def PYMAVLINK_DIR_def b os_path_join_def join2_def
        startswith_def endswith_def)
  have s: "message_definitions_dir cfg =
      b @ ''PX4-Autopilot/src/modules/mavlink/mavlink/message_definitions/v1.0''"
    using False
    by (simp add: message_definitions_dir_def b os_path_join_def join2_def startswith_def
        endswith_def)
  show ?thesis
    by (auto simp: d s relocate_def is_under_def as_dir_def startswith_def endswith_def)
qed

lemma run_steps_last: "(case r of Inl e \<Rightarrow> Inl e | Inr x \<Rightarrow> run_steps [] x) = r"
  by (cases r) simp_all

lemma copy_message_definitions_unfold:
  "copy_message_definitions cfg src w =
     copytree src (pymavlink_definitions_dir cfg)
       (done_by [RmtreeIgnoreErrors (pymavlink_definitions_dir cfg)]
          (if dirs (fs w) (pymavlink_definitions_dir cfg) \<and>
              files (fs w) (pymavlink_definitions_dir cfg) = None
           then w\<lparr>stdout := stdout w @ [''--- Copying message definitions''],
                  fs := remove_tree (pymavlink_definitions_dir cfg) (fs w)\<rparr>
           else w\<lparr>stdout := stdout w @ [''--- Copying message definitions'']\<rparr>))"
  by (simp add: copy_message_definitions_def print2_result rmtree_ignore_errors_result
      run_steps_last)

text \<open>
  C10. The copy of the message definitions in \<open>build_pymavlink\<close> is not guarded by a
  marker. In every run in which the patch block returns, whether it applied the patch
  or found the marker, the next effect is the removal of the generator's
  \<open>message_definitions/v1.0\<close> with errors ignored. If then the firmware tree's definition
  directory (a directory inside the firmware checkout) exists and the generator's
  directory is not a regular file, the copy returns: the removal and the copy of the
  tree are recorded in this order, every path under the generator's directory is what
  the corresponding path of the firmware tree was before, and the rest of
  \<open>build_pymavlink\<close> runs on that world.
\<close>

theorem definitions_copied_every_run:
  assumes "pymavlink_patch_once tools cfg
             (w\<lparr>stdout := stdout w @ [''--- Generating pymavlink package'']\<rparr>) = Inr w1"
  shows "let d = os_path_join (PYMAVLINK_DIR cfg) [''message_definitions'', ''v1.0''];
             src = message_definitions_dir cfg
         in is_under (PX4_DIR cfg) src \<and>
            (\<exists>rest. log (final_world (build_pymavlink tools cfg src bx ws w)) =
                      log w1 @ RmtreeIgnoreErrors d # rest) \<and>
            (isdir w1 src \<and> \<not> isfile w1 src \<and> \<not> isfile w1 d \<longrightarrow>
               (\<exists>w2. copy_message_definitions cfg src w1 = Inr w2 \<and>
                     log w2 = log w1 @ [RmtreeIgnoreErrors d, Copytree src d] \<and>
                     (\<forall>p. is_under d p \<longrightarrow>
                        files (fs w2) p = files (fs w1) (relocate d src p) \<and>
                        dirs (fs w2) p = dirs (fs w1) (relocate d src p)) \<and>
                     build_pymavlink tools cfg src bx ws w =
                       pymavlink_package tools cfg bx ws w2))"
proof -
  define d where "d = pymavlink_definitions_dir cfg"
  define src where "src = message_definitions_dir cfg"
  define w1a where "w1a = w1\<lparr>stdout := stdout w1 @ [''--- Copying message definitions'']\<rparr>"
  define w1b where "w1b = done_by [RmtreeIgnoreErrors d]
      (if dirs (fs w1a) d \<and> files (fs w1a) d = None then w1a\<lparr>fs := remove_tree d (fs w1a)\<rparr>
       else w1a)"
  have dne: "d \<noteq> []"
    by (auto simp: d_def pymavlink_definitions_dir_def os_path_join_def join2_def startswith_def)
  have under_src: "is_under (PX4_DIR cfg) src"
    unfolding src_def message_definitions_dir_def
    by (auto intro!: under_os_path_join simp: under_refl PX4_DIR_nonempty startswith_def)
  have copy: "copy_message_definitions cfg src w1 = copytree src d w1b"
    by (simp add: copy_message_definitions_unfold w1a_def w1b_def d_def)
  have build: "build_pymavlink tools cfg src bx ws w =
      (case copytree src d w1b of Inl e \<Rightarrow> Inl e | Inr w2 \<Rightarrow> pymavlink_package tools cfg bx ws w2)"
    using assms by (simp add: build_pymavlink_def print2_result copy split: sum.splits)
  have log1b: "log w1b = log w1 @ [RmtreeIgnoreErrors d]"
    by (simp add: w1b_def w1a_def done_by_def)
  have first: "\<exists>rest. log (final_world (build_pymavlink tools cfg src bx ws w)) =
      log w1 @ RmtreeIgnoreErrors d # rest"
  proof (cases "copytree src d w1b")
    case (Inl a)
    obtain e w' where a: "a = (e, w')" by (cases a)
    with Inl have "log w' = log w1b"
      using emits_Inl [OF emits_copytree, of src d w1b e w'] by simp
    with Inl a build log1b show ?thesis by (simp add: final_world_def)
  next
    case (Inr w2)
    then have l2: "log w2 = log w1b @ [Copytree src d]"
      using emits_Inr [OF emits_copytree, of src d w1b w2] by simp
    from recordsD [OF records_pymavlink_package, of tools cfg bx ws w2]
    obtain evs where "log (final_world (pymavlink_package tools cfg bx ws w2)) = log w2 @ evs"
      by blast
    with Inr build l2 log1b show ?thesis by simp
  qed
  have second: "\<exists>w2. copy_message_definitions cfg src w1 = Inr w2 \<and>
                     log w2 = log w1 @ [RmtreeIgnoreErrors d, Copytree src d] \<and>
                     (\<forall>p. is_under d p \<longrightarrow>
                        files (fs w2) p = files (fs w1) (relocate d src p) \<and>
                        dirs (fs w2) p = dirs (fs w1) (relocate d src p)) \<and>
                     build_pymavlink tools cfg src bx ws w =
                       pymavlink_package tools cfg bx ws w2"
    if h: "isdir w1 src \<and> \<not> isfile w1 src \<and> \<not> isfile w1 d"
  proof -
    have apart: "\<not> is_under d (relocate d src p)" if "is_under d p" for p
      using that definitions_dirs_apart [of cfg p] by (simp add: d_def src_def)
    have "relocate d src d = src" by (simp add: relocate_def)
    with apart [of d] dne have src_out: "\<not> is_under d src" by (simp add: under_refl)
    have keep: "files (fs w1b) q = files (fs w1) q \<and> dirs (fs w1b) q = dirs (fs w1) q"
      if "\<not> is_under d q" for q
      using that by (simp add: w1b_def w1a_def done_by_def remove_tree_def)
    have dst_free: "\<not> dirs (fs w1b) d \<and> files (fs w1b) d = None"
      using h dne
      by (auto simp: w1b_def w1a_def done_by_def remove_tree_def isfile_def under_refl)
    have src_ok: "dirs (fs w1b) src \<and> files (fs w1b) src = None"
      using h keep [OF src_out] by (simp add: isdir_def isfile_def)
    define w2 where "w2 = done_by [Copytree src d]
             (w1b\<lparr>fs := (fs w1b)\<lparr>
                dirs := (\<lambda>p. if is_under d p then dirs (fs w1b) (relocate d src p)
                             else dirs (fs w1b) p \<or> is_under p d),
                files := (\<lambda>p. if is_under d p then files (fs w1b) (relocate d src p)
                              else files (fs w1b) p)\<rparr>\<rparr>)"
    have c: "copytree src d w1b = Inr w2"
      using dst_free src_ok by (simp add: copytree_def w2_def)
    have l: "log w2 = log w1 @ [RmtreeIgnoreErrors d, Copytree src d]"
      by (simp add: w2_def done_by_def log1b)
    have content: "files (fs w2) p = files (fs w1) (relocate d src p) \<and>
        dirs (fs w2) p = dirs (fs w1) (relocate d src p)" if "is_under d p" for p
      using that keep [OF apart [OF that]] by (simp add: w2_def done_by_def)
    from c l content copy build show ?thesis by auto
  qed
  from under_src first second show ?thesis
    unfolding Let_def d_def [symmetric] src_def [symmetric]
    unfolding d_def pymavlink_definitions_dir_def src_def
    by blast
qed

theorem definitions_copied_every_run_witness:
  "isfile patched_world (pymavlink_check_patch_file (cfg_at ''v1.12.3'')) \<and>
   pymavlink_patch_once (tools_ok []) (cfg_at ''v1.12.3'')
       (patched_world\<lparr>stdout := stdout patched_world @ [''--- Generating pymavlink package'']\<rparr>) =
     Inr (patched_world\<lparr>stdout := stdout patched_world @ [''--- Generating pymavlink package'']\<rparr>) \<and>
   isdir (patched_world\<lparr>stdout := stdout patched_world @ [''--- Generating pymavlink package'']\<rparr>)
     (message_definitions_dir (cfg_at ''v1.12.3'')) \<and>
   (\<exists>w2. copy_message_definitions (cfg_at ''v1.12.3'') (message_definitions_dir (cfg_at ''v1.12.3''))
            (patched_world\<lparr>stdout := stdout patched_world @ [''--- Generating pymavlink package'']\<rparr>) =
          Inr w2 \<and>
        log w2 =
          log (patched_world\<lparr>stdout := stdout patched_world @ [''--- Generating pymavlink package'']\<rparr>) @
          [RmtreeIgnoreErrors
             (os_path_join (PYMAVLINK_DIR (cfg_at ''v1.12.3'')) [''message_definitions'', ''v1.0'']),
           Copytree (message_definitions_dir (cfg_at ''v1.12.3''))
             (os_path_join (PYMAVLINK_DIR (cfg_at ''v1.12.3'')) [''message_definitions'', ''v1.0''])] \<and>
        build_pymavlink (tools_ok []) (cfg_at ''v1.12.3'') (message_definitions_dir (cfg_at ''v1.12.3''))
            (bell_xml_def (cfg_at ''v1.12.3'')) False patched_world =
          pymavlink_package (tools_ok []) (cfg_at ''v1.12.3'') (bell_xml_def (cfg_at ''v1.12.3''))
            False w2)"
proof -
  let ?w1 = "patched_world\<lparr>stdout := stdout patched_world @ [''--- Generating pymavlink package'']\<rparr>"
  have m: "isfile patched_world (pymavlink_check_patch_file (cfg_at ''v1.12.3''))"
    by (rule markers_present_example)
  then have "isfile ?w1 (pymavlink_check_patch_file (cfg_at ''v1.12.3''))"
    by (simp add: isfile_def)
  then have skip: "pymavlink_patch_once (tools_ok []) (cfg_at ''v1.12.3'') ?w1 = Inr ?w1"
    by (rule pymavlink_patch_once_skip)
  have src: "message_definitions_dir (cfg_at ''v1.12.3'') =
      ''/repo/build/v1.12.3/PX4-Autopilot/mavlink/include/mavlink/v2.0/message_definitions''"
    by (simp add: message_definitions_dir_def path_defs)
  have dst: "os_path_join (PYMAVLINK_DIR (cfg_at ''v1.12.3'')) [''message_definitions'', ''v1.0''] =
      ''/repo/build/v1.12.3/pymavlink/message_definitions/v1.0''"
    by (simp add: path_defs)
  have a: "isdir ?w1 (message_definitions_dir (cfg_at ''v1.12.3''))"
    unfolding src by (simp add: patched_world_def world_of_def isdir_def)
  have b: "\<not> isfile ?w1 (message_definitions_dir (cfg_at ''v1.12.3''))"
    unfolding src by (simp add: patched_world_def world_of_def isfile_def)
  have c: "\<not> isfile ?w1
      (os_path_join (PYMAVLINK_DIR (cfg_at ''v1.12.3'')) [''message_definitions'', ''v1.0''])"
    unfolding dst by (simp add: patched_world_def world_of_def isfile_def)
  from definitions_copied_every_run [OF skip, of "bell_xml_def (cfg_at ''v1.12.3'')" False,
      unfolded Let_def] m skip a b c
  show ?thesis by blast
qed


section \<open>Persisted state\<close>

lemma permitted_simps [simp]:
  "permitted_write cfg (CheckCall c)"
  "permitted_write cfg (CheckOutput c)"
  "permitted_write cfg (Rmtree p)"
  "permitted_write cfg (RmtreeIgnoreErrors p)"
  "permitted_write cfg (Touch (px4_check_patch_file cfg))"
  "permitted_write cfg (Touch (pymavlink_check_patch_file cfg))"
  "permitted_write cfg (Touch (mavlink_check_patch_file cfg))"
  "permitted_write cfg (Makedirs (DIST_DIR cfg))"
  by (simp_all add: permitted_write_def px4_check_patch_file_def pymavlink_check_patch_file_def
      mavlink_check_patch_file_def)































end
